theory Spec2Isabelle
  imports Complex_Main
begin

section \<open>The collaborators of \<open>HomeActivity\<close>\<close>

text \<open>
  \<open>shell/model/homeactivity.py\<close> holds one class, \<open>HomeActivity\<close>. Its methods call
  a bundle, a window, an introspection service, the presence service, the user's profile
  and the gobject main loop. Each collaborator is a record of what the calls made by the
  class return.
\<close>

text \<open>
  The exceptions of the class, with their message; \<open>AttributeError\<close> is what a method
  call on \<open>None\<close> raises, and carries the name of the method.
\<close>

datatype error = RuntimeError string | ValueError string | AttributeError string

datatype 'a result = Return 'a | Raise error

record activity_bundle =
  bundle_get_icon :: string
  bundle_get_service_name :: string

text \<open>
  A window object: its truth value (\<open>not window\<close> in \<open>set_window\<close>), and what
  \<open>window.get_xid()\<close> and \<open>window.get_name()\<close> return. Python's \<open>None\<close> is
  \<open>None\<close> of \<open>window option\<close>.
\<close>

record window =
  window_nonzero :: bool
  window_get_xid :: int
  window_get_name :: string

record service =
  service_get_shared :: bool

datatype xocolor = XoColor string

record ps_activity =
  activity_get_color :: string

text \<open>
  \<open>presenceservice.get_instance().get_activity(id)\<close> and \<open>profile.get_color()\<close>.
\<close>

record environment =
  pservice_get_activity :: "string \<Rightarrow> ps_activity option"
  profile_get_color :: xocolor

subsection \<open>The gobject main loop\<close>

text \<open>
  A timeout source has the interval it was added with and the time (in milliseconds of
  the loop's clock) at which it is due. The loop holds the pending sources by id; ids are
  positive, so \<open>0\<close> names no source. \<open>timeout_add\<close> returns the id of the source
  it adds; \<open>source_remove\<close> tells whether it found the source it was to remove.
\<close>

record source =
  interval :: nat
  deadline :: nat

record mainloop =
  sources :: "(nat \<times> source) list"
  last_id :: nat
  clock :: nat

definition timeout_add :: "nat \<Rightarrow> mainloop \<Rightarrow> nat \<times> mainloop" where
  "timeout_add ms ml =
     (let i = Suc (last_id ml)
      in (i, ml\<lparr>sources := sources ml @ [(i, \<lparr>interval = ms, deadline = clock ml + ms\<rparr>)],
                last_id := i\<rparr>))"

definition source_remove :: "nat \<Rightarrow> mainloop \<Rightarrow> bool \<times> mainloop" where
  "source_remove i ml =
     (i \<in> fst ` set (sources ml),
      ml\<lparr>sources := filter (\<lambda>p. fst p \<noteq> i) (sources ml)\<rparr>)"

text \<open>A loop with no pending source, whose last id is \<open>n\<close> and whose clock reads \<open>t\<close>.\<close>

definition idle_loop :: "nat \<Rightarrow> nat \<Rightarrow> mainloop" where
  "idle_loop n t = \<lparr>sources = [], last_id = n, clock = t\<rparr>"

section \<open>The class\<close>

record home_activity =
  self_window :: "window option"
  self_xid :: "int option"
  self_service :: "service option"
  self_activity_id :: string
  self_bundle :: activity_bundle
  self_launch_time :: real
  self_launched :: bool
  self_launch_timeout_id :: nat

text \<open>
  The object, the main loop its timer lives in, and the signals it has emitted so far.
\<close>

record world =
  self :: home_activity
  loop :: mainloop
  emitted :: "string list"

text \<open>
  \<open>__init__(self, bundle, activity_id)\<close>; \<open>now\<close> is what \<open>time.time()\<close> returns.
  The two \<open>logging.debug\<close> calls format \<open>self.get_type\<close> without calling it and are
  left out everywhere.
\<close>

definition HomeActivity_init :: "activity_bundle \<Rightarrow> string \<Rightarrow> real \<Rightarrow> mainloop \<Rightarrow> world" where
  "HomeActivity_init bundle activity_id now ml =
     (case timeout_add 20000 ml of (tid, ml') \<Rightarrow>
        \<lparr>self = \<lparr>self_window = None, self_xid = None, self_service = None,
                 self_activity_id = activity_id, self_bundle = bundle,
                 self_launch_time = now, self_launched = False,
                 self_launch_timeout_id = tid\<rparr>,
         loop = ml', emitted = []\<rparr>)"

definition launch_timeout_cb :: "world \<Rightarrow> bool \<times> world" where
  "launch_timeout_cb w =
     (False, w\<lparr>self := (self w)\<lparr>self_launch_timeout_id := 0\<rparr>,
               emitted := emitted w @ [''launch-timeout'']\<rparr>)"

text \<open>Python truth values of the two fields tested by \<open>set_window\<close>.\<close>

definition truthy_window :: "window option \<Rightarrow> bool" where
  "truthy_window x = (case x of None \<Rightarrow> False | Some win \<Rightarrow> window_nonzero win)"

definition truthy_xid :: "int option \<Rightarrow> bool" where
  "truthy_xid x = (case x of None \<Rightarrow> False | Some n \<Rightarrow> n \<noteq> 0)"

text \<open>
  \<open>set_window\<close> assigns \<open>_launched\<close> and removes the timer before either check; an
  exception leaves those assignments in place, so the world is returned in both cases.
\<close>

definition set_window :: "window option \<Rightarrow> world \<Rightarrow> unit result \<times> world" where
  "set_window window w =
     (let s1 = (self w)\<lparr>self_launched := True\<rparr>;
          ml1 = snd (source_remove (self_launch_timeout_id s1) (loop w));
          s2 = s1\<lparr>self_launch_timeout_id := 0\<rparr>;
          w2 = w\<lparr>self := s2, loop := ml1\<rparr>
      in if truthy_window (self_window s2) \<or> truthy_xid (self_xid s2)
         then (Raise (RuntimeError ''Activity is already launched!''), w2)
         else (case window of
                 None \<Rightarrow> (Raise (ValueError ''window must be valid''), w2)
               | Some win \<Rightarrow>
                   if \<not> window_nonzero win
                   then (Raise (ValueError ''window must be valid''), w2)
                   else (Return (),
                         w2\<lparr>self := s2\<lparr>self_window := Some win,
                                        self_xid := Some (window_get_xid win)\<rparr>\<rparr>)))"

text \<open>\<open>__del__\<close>: the finaliser removes whatever source the handle names.\<close>

definition HomeActivity_del :: "world \<Rightarrow> world" where
  "HomeActivity_del w =
     (let ml1 = snd (source_remove (self_launch_timeout_id (self w)) (loop w))
      in w\<lparr>self := (self w)\<lparr>self_launch_timeout_id := 0\<rparr>, loop := ml1\<rparr>)"

definition set_service :: "service option \<Rightarrow> home_activity \<Rightarrow> unit result \<times> home_activity" where
  "set_service service s = (Return (), s\<lparr>self_service := service\<rparr>)"

definition get_service :: "home_activity \<Rightarrow> service option result" where
  "get_service s = Return (self_service s)"

definition get_title :: "home_activity \<Rightarrow> string result" where
  "get_title s =
     (if \<not> self_launched s then Raise (RuntimeError ''Activity is still launching.'')
      else (case self_window s of
              None \<Rightarrow> Raise (AttributeError ''get_name'')
            | Some win \<Rightarrow> Return (window_get_name win)))"

definition get_icon_name :: "home_activity \<Rightarrow> string result" where
  "get_icon_name s = Return (bundle_get_icon (self_bundle s))"

definition get_icon_color :: "environment \<Rightarrow> home_activity \<Rightarrow> xocolor result" where
  "get_icon_color env s =
     (case pservice_get_activity env (self_activity_id s) of
        Some activity \<Rightarrow> Return (XoColor (activity_get_color activity))
      | None \<Rightarrow> Return (profile_get_color env))"

definition get_activity_id :: "home_activity \<Rightarrow> string result" where
  "get_activity_id s = Return (self_activity_id s)"

definition get_xid :: "home_activity \<Rightarrow> int option result" where
  "get_xid s =
     (if \<not> self_launched s then Raise (RuntimeError ''Activity is still launching.'')
      else Return (self_xid s))"

definition get_window :: "home_activity \<Rightarrow> window option result" where
  "get_window s =
     (if \<not> self_launched s then Raise (RuntimeError ''Activity is still launching.'')
      else Return (self_window s))"

definition get_type :: "home_activity \<Rightarrow> string result" where
  "get_type s = Return (bundle_get_service_name (self_bundle s))"

definition get_shared :: "home_activity \<Rightarrow> bool result" where
  "get_shared s =
     (if \<not> self_launched s then Raise (RuntimeError ''Activity is still launching.'')
      else (case self_service s of
              None \<Rightarrow> Raise (AttributeError ''get_shared'')
            | Some sv \<Rightarrow> Return (service_get_shared sv)))"

definition get_launch_time :: "home_activity \<Rightarrow> real result" where
  "get_launch_time s = Return (self_launch_time s)"

definition get_launched :: "home_activity \<Rightarrow> bool result" where
  "get_launched s = Return (self_launched s)"

section \<open>The life of one object\<close>

text \<open>
  The main loop dispatches a timeout source once its deadline has passed: it calls the
  callback, and drops the source when the callback returns \<open>False\<close> (it would wait
  another interval otherwise). The only callback ever added is \<open>_launch_timeout_cb\<close>.
\<close>

definition dispatch :: "nat \<Rightarrow> world \<Rightarrow> world" where
  "dispatch i w =
     (case map_of (sources (loop w)) i of
        None \<Rightarrow> w
      | Some src \<Rightarrow>
          if clock (loop w) < deadline src then w
          else (case launch_timeout_cb w of (again, w') \<Rightarrow>
                  if again
                  then w'\<lparr>loop := (loop w')\<lparr>sources :=
                         map (\<lambda>p. if fst p = i
                                   then (i, (snd p)\<lparr>deadline := clock (loop w') + interval (snd p)\<rparr>)
                                   else p) (sources (loop w'))\<rparr>\<rparr>
                  else w'\<lparr>loop := snd (source_remove i (loop w'))\<rparr>))"

definition advance :: "nat \<Rightarrow> world \<Rightarrow> world" where
  "advance d w = w\<lparr>loop := (loop w)\<lparr>clock := clock (loop w) + d\<rparr>\<rparr>"

text \<open>
  What can happen to the object after its construction: a method is called (whether it
  returns or raises, the object goes on living with the fields as the call left them),
  time passes, or the main loop dispatches a source. The getters assign nothing.
  Python finalises an object only when nothing refers to it, and a pending source refers
  to its callback, a bound method of the object: \<open>__del__\<close> runs only when the loop
  holds no source.
\<close>

datatype getter =
  GetService | GetTitle | GetIconName | GetIconColor | GetActivityId | GetXid
  | GetWindow | GetType | GetShared | GetLaunchTime | GetLaunched

datatype event =
  SetWindow "window option"
  | SetService "service option"
  | Get getter
  | Advance nat
  | Dispatch nat
  | Finalize

fun step :: "world \<Rightarrow> event \<Rightarrow> world" where
  "step w (SetWindow x) = snd (set_window x w)"
| "step w (SetService x) = w\<lparr>self := snd (set_service x (self w))\<rparr>"
| "step w (Get g) = w"
| "step w (Advance d) = advance d w"
| "step w (Dispatch i) = dispatch i w"
| "step w Finalize = (if sources (loop w) = [] then HomeActivity_del w else w)"

definition run :: "world \<Rightarrow> event list \<Rightarrow> world" where
  "run w evs = foldl step w evs"

text \<open>The launch timer is armed: the handle is set and names a pending source.\<close>

definition armed :: "world \<Rightarrow> bool" where
  "armed w =
     (self_launch_timeout_id (self w) \<noteq> 0 \<and>
      self_launch_timeout_id (self w) \<in> fst ` set (sources (loop w)))"

text \<open>
  The arguments of the \<open>set_service\<close> calls among the events, in order, and the
  service they leave behind: none before the first call, the last one set afterwards.
\<close>

fun set_service_calls :: "event list \<Rightarrow> service option list" where
  "set_service_calls [] = []"
| "set_service_calls (SetService x # evs) = x # set_service_calls evs"
| "set_service_calls (e # evs) = set_service_calls evs"

definition latest_service :: "event list \<Rightarrow> service option" where
  "latest_service evs =
     (case rev (set_service_calls evs) of [] \<Rightarrow> None | x # xs \<Rightarrow> x)"

text \<open>
  What holds of every world that one construction at loop time \<open>c\<close> leads to: the loop
  holds at most the launch timer, under the handle kept in the object and due 20 seconds
  after \<open>c\<close>; while it is pending nothing was emitted and nothing launched; what was
  emitted is one signal, after the deadline.
\<close>

definition launch_inv :: "nat \<Rightarrow> world \<Rightarrow> bool" where
  "launch_inv c w =
     ((sources (loop w) = [] \<or>
       sources (loop w) =
         [(self_launch_timeout_id (self w), \<lparr>interval = 20000, deadline = c + 20000\<rparr>)] \<and>
       self_launch_timeout_id (self w) \<noteq> 0 \<and> emitted w = [] \<and>
       \<not> self_launched (self w)) \<and>
      (emitted w = [] \<or> emitted w = [''launch-timeout''] \<and> c + 20000 \<le> clock (loop w)) \<and>
      (\<not> self_launched (self w) \<longrightarrow> self_window (self w) = None) \<and>
      (self_window (self w) = None \<longrightarrow> self_xid (self w) = None))"

section \<open>Properties\<close>

lemma run_Nil: "run w [] = w"
  by (simp add: run_def)

lemma run_Cons: "run w (e # evs) = run (step w e) evs"
  by (simp add: run_def)

lemma run_append: "run w (evs @ evs') = run (run w evs) evs'"
  by (simp add: run_def)

lemma run_snoc: "run w (evs @ [e]) = step (run w evs) e"
  by (simp add: run_def)

lemma launched_step: "self_launched (self w) \<Longrightarrow> self_launched (self (step w e))"
  by (cases e)
    (auto simp: set_window_def set_service_def advance_def dispatch_def launch_timeout_cb_def
      source_remove_def HomeActivity_del_def Let_def split: option.splits)

lemma inv_init: "launch_inv c (HomeActivity_init b a t (idle_loop n c))"
  by (simp add: launch_inv_def HomeActivity_init_def timeout_add_def idle_loop_def)

lemma inv_set_window: "launch_inv c w \<Longrightarrow> launch_inv c (snd (set_window x w))"
  by (auto simp: launch_inv_def set_window_def source_remove_def Let_def truthy_window_def
      truthy_xid_def split: option.splits)

lemma inv_dispatch: "launch_inv c w \<Longrightarrow> launch_inv c (dispatch i w)"
  by (auto simp: launch_inv_def dispatch_def launch_timeout_cb_def source_remove_def
      split: option.splits if_splits)

lemma inv_step: "launch_inv c w \<Longrightarrow> launch_inv c (step w e)"
proof (cases e)
  case (SetWindow x)
  assume "launch_inv c w"
  then show ?thesis using SetWindow by (simp add: inv_set_window)
next
  case (SetService x)
  assume "launch_inv c w"
  then show ?thesis using SetService by (simp add: launch_inv_def set_service_def)
next
  case (Get g)
  assume "launch_inv c w"
  then show ?thesis using Get by simp
next
  case (Advance d)
  assume "launch_inv c w"
  then show ?thesis using Advance by (auto simp: launch_inv_def advance_def)
next
  case (Dispatch i)
  assume "launch_inv c w"
  then show ?thesis using Dispatch by (simp add: inv_dispatch)
next
  case Finalize
  assume "launch_inv c w"
  then show ?thesis using Finalize
    by (auto simp: launch_inv_def HomeActivity_del_def source_remove_def)
qed

lemma inv_run: "launch_inv c w \<Longrightarrow> launch_inv c (run w evs)"
  by (induction evs arbitrary: w) (simp_all add: run_Nil run_Cons inv_step)

lemma inv_reachable: "launch_inv c (run (HomeActivity_init b a t (idle_loop n c)) evs)"
  by (rule inv_run) (rule inv_init)

lemma launched_run: "self_launched (self w) \<Longrightarrow> self_launched (self (run w evs))"
  by (induction evs arbitrary: w) (simp_all add: run_Nil run_Cons launched_step)


subsection \<open>What no event touches\<close>

lemma frame_step:
  "self_activity_id (self (step w e)) = self_activity_id (self w) \<and>
   self_bundle (self (step w e)) = self_bundle (self w) \<and>
   self_launch_time (self (step w e)) = self_launch_time (self w)"
  by (cases e)
    (auto simp: set_window_def set_service_def advance_def dispatch_def launch_timeout_cb_def
      source_remove_def HomeActivity_del_def Let_def split: option.splits)

lemma frame_run:
  "self_activity_id (self (run w evs)) = self_activity_id (self w) \<and>
   self_bundle (self (run w evs)) = self_bundle (self w) \<and>
   self_launch_time (self (run w evs)) = self_launch_time (self w)"
  by (induction evs arbitrary: w) (simp_all add: run_Nil run_Cons frame_step)

lemma frame_init:
  "self_activity_id (self (HomeActivity_init b a t ml)) = a \<and>
   self_bundle (self (HomeActivity_init b a t ml)) = b \<and>
   self_launch_time (self (HomeActivity_init b a t ml)) = t \<and>
   self_service (self (HomeActivity_init b a t ml)) = None \<and>
   \<not> self_launched (self (HomeActivity_init b a t ml))"
  by (simp add: HomeActivity_init_def timeout_add_def Let_def)

subsection \<open>A bound window stays\<close>

lemma set_window_bound:
  assumes "truthy_window (self_window (self w))"
  shows "fst (set_window y w) = Raise (RuntimeError ''Activity is already launched!'') \<and>
         self_window (self (snd (set_window y w))) = self_window (self w) \<and>
         self_xid (self (snd (set_window y w))) = self_xid (self w)"
  using assms by (simp add: set_window_def Let_def)

lemma set_window_Return:
  assumes "fst (set_window x w) = Return ()"
  shows "truthy_window x \<and> self_window (self (snd (set_window x w))) = x \<and>
         self_xid (self (snd (set_window x w))) = map_option window_get_xid x"
  using assms
  by (auto simp: set_window_def Let_def truthy_window_def split: if_splits option.splits)

lemma window_step:
  assumes "truthy_window (self_window (self w))"
  shows "self_window (self (step w e)) = self_window (self w) \<and>
         self_xid (self (step w e)) = self_xid (self w)"
proof (cases e)
  case (SetWindow y)
  then show ?thesis using set_window_bound [OF assms, of y] by simp
next
  case (Dispatch i)
  then show ?thesis
    by (simp add: dispatch_def launch_timeout_cb_def source_remove_def split: option.splits)
qed (simp_all add: set_service_def advance_def HomeActivity_del_def Let_def)

lemma window_run:
  "truthy_window (self_window (self w)) \<Longrightarrow>
   self_window (self (run w evs)) = self_window (self w) \<and>
   self_xid (self (run w evs)) = self_xid (self w)"
proof (induction evs arbitrary: w)
  case Nil
  show ?case by (simp add: run_Nil)
next
  case (Cons e evs)
  have keep: "self_window (self (step w e)) = self_window (self w)"
    and keep_xid: "self_xid (self (step w e)) = self_xid (self w)"
    using window_step [OF Cons.prems, of e] by simp_all
  from Cons.prems keep have "truthy_window (self_window (self (step w e)))" by simp
  from Cons.IH [OF this] keep keep_xid show ?case by (simp add: run_Cons)
qed

subsection \<open>The service\<close>

lemma set_service_calls_append:
  "set_service_calls (evs @ evs') = set_service_calls evs @ set_service_calls evs'"
  by (induction evs rule: set_service_calls.induct) simp_all

lemma service_run:
  "self_service (self (run w evs)) =
     (case rev (set_service_calls evs) of [] \<Rightarrow> self_service (self w) | x # xs \<Rightarrow> x)"
proof (induction evs rule: rev_induct)
  case Nil
  show ?case by (simp add: run_Nil)
next
  case (snoc e evs)
  show ?case
  proof (cases e)
    case (SetService x)
    then show ?thesis
      by (simp add: run_snoc set_service_calls_append set_service_def)
  next
    case (SetWindow x)
    then show ?thesis using snoc
      by (simp add: run_snoc set_service_calls_append set_window_def Let_def
          split: option.splits)
  next
    case (Dispatch i)
    then show ?thesis using snoc
      by (simp add: run_snoc set_service_calls_append dispatch_def launch_timeout_cb_def
          source_remove_def split: option.splits)
  qed (use snoc in \<open>simp_all add: run_snoc set_service_calls_append advance_def
        HomeActivity_del_def Let_def\<close>)
qed

subsection \<open>An empty loop stays empty\<close>

lemma quiet_step:
  assumes "sources (loop w) = []"
  shows "sources (loop (step w e)) = [] \<and> emitted (step w e) = emitted w"
  using assms
  by (cases e)
    (simp_all add: set_window_def set_service_def advance_def dispatch_def source_remove_def
      HomeActivity_del_def Let_def split: option.splits)

lemma quiet_run:
  "sources (loop w) = [] \<Longrightarrow> sources (loop (run w evs)) = [] \<and> emitted (run w evs) = emitted w"
proof (induction evs arbitrary: w)
  case Nil
  then show ?case by (simp add: run_Nil)
next
  case (Cons e evs)
  from quiet_step [OF Cons.prems, of e]
  have "sources (loop (step w e)) = []" and "emitted (step w e) = emitted w" by simp_all
  with Cons.IH [of "step w e"] show ?case by (simp add: run_Cons)
qed

lemma set_window_quiet:
  assumes "launch_inv c w"
  shows "sources (loop (snd (set_window x w))) = [] \<and>
         emitted (snd (set_window x w)) = emitted w"
  using assms
  by (auto simp: launch_inv_def set_window_def source_remove_def Let_def split: option.splits)


section \<open>Window binding\<close>

text \<open>
  C1. Window binding happens at most once. Once a call of \<open>set_window\<close> has returned
  normally with window \<open>x\<close>, then after any further events every call of
  \<open>set_window\<close> raises \<open>RuntimeError("Activity is already launched!")\<close>, and the
  window and the xid are, before and after that call, the ones bound by the first.
\<close>

theorem set_window_at_most_once:
  assumes "fst (set_window x w) = Return ()"
  shows "fst (set_window y (run (snd (set_window x w)) evs)) =
           Raise (RuntimeError ''Activity is already launched!'') \<and>
         self_window (self (run (snd (set_window x w)) evs)) = x \<and>
         self_xid (self (run (snd (set_window x w)) evs)) = map_option window_get_xid x \<and>
         self_window (self (snd (set_window y (run (snd (set_window x w)) evs)))) = x \<and>
         self_xid (self (snd (set_window y (run (snd (set_window x w)) evs)))) =
           map_option window_get_xid x"
proof -
  let ?w1 = "snd (set_window x w)"
  from set_window_Return [OF assms]
  have tx: "truthy_window x" and wx: "self_window (self ?w1) = x"
    and xx: "self_xid (self ?w1) = map_option window_get_xid x"
    by simp_all
  from tx wx have "truthy_window (self_window (self ?w1))" by simp
  from window_run [OF this, of evs] wx xx
  have rw: "self_window (self (run ?w1 evs)) = x"
    and rx: "self_xid (self (run ?w1 evs)) = map_option window_get_xid x"
    by simp_all
  from tx rw have "truthy_window (self_window (self (run ?w1 evs)))" by simp
  from set_window_bound [OF this, of y] rw rx show ?thesis by simp
qed

theorem set_window_at_most_once_witness:
  "fst (set_window (Some \<lparr>window_nonzero = True, window_get_xid = 77, window_get_name = ''Paint''\<rparr>)
         (HomeActivity_init \<lparr>bundle_get_icon = ''paint.svg'',
            bundle_get_service_name = ''org.laptop.Paint''\<rparr> ''a1'' 0 (idle_loop 0 0))) = Return () \<and>
   fst (set_window (Some \<lparr>window_nonzero = True, window_get_xid = 78, window_get_name = ''Other''\<rparr>)
         (run (snd (set_window
                 (Some \<lparr>window_nonzero = True, window_get_xid = 77, window_get_name = ''Paint''\<rparr>)
                 (HomeActivity_init \<lparr>bundle_get_icon = ''paint.svg'',
                    bundle_get_service_name = ''org.laptop.Paint''\<rparr> ''a1'' 0 (idle_loop 0 0))))
            [Advance 30000, Dispatch 1, SetService None])) =
     Raise (RuntimeError ''Activity is already launched!'') \<and>
   self_xid (self (snd (set_window
       (Some \<lparr>window_nonzero = True, window_get_xid = 78, window_get_name = ''Other''\<rparr>)
       (run (snd (set_window
               (Some \<lparr>window_nonzero = True, window_get_xid = 77, window_get_name = ''Paint''\<rparr>)
               (HomeActivity_init \<lparr>bundle_get_icon = ''paint.svg'',
                  bundle_get_service_name = ''org.laptop.Paint''\<rparr> ''a1'' 0 (idle_loop 0 0))))
          [Advance 30000, Dispatch 1, SetService None])))) = Some 77"
proof -
  let ?x = "Some \<lparr>window_nonzero = True, window_get_xid = 77, window_get_name = ''Paint''\<rparr>"
  let ?w = "HomeActivity_init \<lparr>bundle_get_icon = ''paint.svg'',
              bundle_get_service_name = ''org.laptop.Paint''\<rparr> ''a1'' 0 (idle_loop 0 0)"
  have h: "fst (set_window ?x ?w) = Return ()"
    by (simp add: set_window_def HomeActivity_init_def timeout_add_def idle_loop_def
        source_remove_def truthy_window_def truthy_xid_def Let_def)
  from h set_window_at_most_once [OF h] show ?thesis by simp
qed


section \<open>The launched flag\<close>

lemma launched_changes_step:
  assumes "self_launched (self (step w e)) \<noteq> self_launched (self w)"
  shows "\<exists>x. e = SetWindow x"
  using assms
  by (cases e)
    (auto simp: set_service_def advance_def dispatch_def launch_timeout_cb_def
      source_remove_def HomeActivity_del_def Let_def split: option.splits if_splits)

text \<open>
  C6. The launched flag moves once, from unlaunched to launched: \<open>get_launched\<close>
  returns \<open>False\<close> right after construction; when it returns \<open>True\<close> in some world,
  it returns \<open>True\<close> after any further events; and an event that changes what it
  returns is a call of \<open>set_window\<close>.
\<close>

theorem launched_monotone:
  "get_launched (self (HomeActivity_init b a t ml)) = Return False \<and>
   (get_launched (self w) = Return True \<longrightarrow> get_launched (self (run w evs)) = Return True) \<and>
   (get_launched (self (step w e)) \<noteq> get_launched (self w) \<longrightarrow> (\<exists>x. e = SetWindow x))"
proof (intro conjI impI)
  show "get_launched (self (HomeActivity_init b a t ml)) = Return False"
    using frame_init [of b a t ml] by (simp add: get_launched_def)
next
  assume "get_launched (self w) = Return True"
  then have "self_launched (self w)" by (simp add: get_launched_def)
  from launched_run [OF this, of evs]
  show "get_launched (self (run w evs)) = Return True" by (simp add: get_launched_def)
next
  assume "get_launched (self (step w e)) \<noteq> get_launched (self w)"
  then have "self_launched (self (step w e)) \<noteq> self_launched (self w)"
    by (simp add: get_launched_def)
  then show "\<exists>x. e = SetWindow x" by (rule launched_changes_step)
qed

theorem launched_monotone_witness:
  "get_launched (self (snd (set_window None
     (HomeActivity_init \<lparr>bundle_get_icon = ''paint.svg'',
        bundle_get_service_name = ''org.laptop.Paint''\<rparr> ''a1'' 0 (idle_loop 0 0))))) = Return True \<and>
   get_launched (self (run (snd (set_window None
     (HomeActivity_init \<lparr>bundle_get_icon = ''paint.svg'',
        bundle_get_service_name = ''org.laptop.Paint''\<rparr> ''a1'' 0 (idle_loop 0 0))))
     [SetService None, Advance 20000, Dispatch 1, SetWindow None, Finalize])) = Return True"
proof -
  let ?w = "snd (set_window None
     (HomeActivity_init \<lparr>bundle_get_icon = ''paint.svg'',
        bundle_get_service_name = ''org.laptop.Paint''\<rparr> ''a1'' 0 (idle_loop 0 0)))"
  have h: "get_launched (self ?w) = Return True"
    by (simp add: get_launched_def set_window_def Let_def)
  from h launched_monotone [of _ _ _ _ ?w "[SetService None, Advance 20000, Dispatch 1,
    SetWindow None, Finalize]"]
  show ?thesis by simp
qed

section \<open>The launch time\<close>

text \<open>
  C8. The launch time is recorded at construction and never assigned again: after any
  events (calls of \<open>set_window\<close>, \<open>set_service\<close> and the getters, time passing, the
  timeout firing), \<open>get_launch_time\<close> returns the value \<open>time.time()\<close> gave the
  constructor.
\<close>

theorem launch_time_constant:
  "get_launch_time (self (run (HomeActivity_init b a t ml) evs)) = Return t"
  using frame_run [of "HomeActivity_init b a t ml" evs] frame_init [of b a t ml]
  by (simp add: get_launch_time_def)

theorem launch_time_constant_witness:
  "get_launch_time (self (run
     (HomeActivity_init \<lparr>bundle_get_icon = ''paint.svg'',
        bundle_get_service_name = ''org.laptop.Paint''\<rparr> ''a1'' 1194000000 (idle_loop 0 0))
     [Get GetLaunchTime, SetService (Some \<lparr>service_get_shared = True\<rparr>), Advance 20000,
      Dispatch 1, SetWindow None])) = Return 1194000000"
  by (rule launch_time_constant)

section \<open>The icon colour\<close>

text \<open>
  C5. In every world a construction with \<open>activity_id\<close> \<open>a\<close> leads to,
  \<open>get_icon_color\<close> returns the \<open>XoColor\<close> built from the colour of the activity the
  presence service has under \<open>a\<close> when there is one, and the profile's colour when the
  presence service answers \<open>None\<close>.
\<close>

theorem get_icon_color_by_presence:
  "get_icon_color env (self (run (HomeActivity_init b a t ml) evs)) =
     (case pservice_get_activity env a of
        Some activity \<Rightarrow> Return (XoColor (activity_get_color activity))
      | None \<Rightarrow> Return (profile_get_color env))"
  using frame_run [of "HomeActivity_init b a t ml" evs] frame_init [of b a t ml]
  by (simp add: get_icon_color_def)

theorem get_icon_color_by_presence_witness:
  "get_icon_color
     \<lparr>pservice_get_activity =
         (\<lambda>i. if i = ''a1'' then Some \<lparr>activity_get_color = ''#FF0000,#00FF00''\<rparr> else None),
       profile_get_color = XoColor ''#000000,#FFFFFF''\<rparr>
     (self (run (HomeActivity_init \<lparr>bundle_get_icon = ''paint.svg'',
        bundle_get_service_name = ''org.laptop.Paint''\<rparr> ''a1'' 0 (idle_loop 0 0))
        [SetWindow None])) = Return (XoColor ''#FF0000,#00FF00'') \<and>
   get_icon_color
     \<lparr>pservice_get_activity =
         (\<lambda>i. if i = ''a1'' then Some \<lparr>activity_get_color = ''#FF0000,#00FF00''\<rparr> else None),
       profile_get_color = XoColor ''#000000,#FFFFFF''\<rparr>
     (self (run (HomeActivity_init \<lparr>bundle_get_icon = ''paint.svg'',
        bundle_get_service_name = ''org.laptop.Paint''\<rparr> ''a2'' 0 (idle_loop 0 0))
        [SetWindow None])) = Return (XoColor ''#000000,#FFFFFF'')"
  by (simp add: get_icon_color_by_presence)

section \<open>The getters without a precondition\<close>

text \<open>
  C9. \<open>get_activity_id\<close>, \<open>get_icon_name\<close>, \<open>get_type\<close>, \<open>set_service\<close> and
  \<open>get_service\<close> return normally in every world, launched or not:
  \<open>get_activity_id\<close> returns the constructor's \<open>activity_id\<close>, \<open>get_icon_name\<close>
  and \<open>get_type\<close> return what the constructor's bundle answers, and \<open>get_service\<close>
  returns \<open>None\<close> while \<open>set_service\<close> has not been called and the service set last
  afterwards.
\<close>

theorem ungated_methods:
  "get_activity_id (self (run (HomeActivity_init b a t ml) evs)) = Return a \<and>
   get_icon_name (self (run (HomeActivity_init b a t ml) evs)) = Return (bundle_get_icon b) \<and>
   get_type (self (run (HomeActivity_init b a t ml) evs)) =
     Return (bundle_get_service_name b) \<and>
   get_service (self (run (HomeActivity_init b a t ml) evs)) = Return (latest_service evs) \<and>
   fst (set_service x (self (run (HomeActivity_init b a t ml) evs))) = Return () \<and>
   get_service (snd (set_service x (self (run (HomeActivity_init b a t ml) evs)))) = Return x"
proof -
  let ?w = "run (HomeActivity_init b a t ml) evs"
  from frame_run [of "HomeActivity_init b a t ml" evs] frame_init [of b a t ml]
  have "self_activity_id (self ?w) = a" and "self_bundle (self ?w) = b" by simp_all
  moreover from service_run [of "HomeActivity_init b a t ml" evs] frame_init [of b a t ml]
  have "self_service (self ?w) = latest_service evs"
    by (simp add: latest_service_def split: list.splits)
  ultimately show ?thesis
    by (simp add: get_activity_id_def get_icon_name_def get_type_def get_service_def
        set_service_def)
qed

theorem ungated_methods_witness:
  "get_activity_id (self (run (HomeActivity_init \<lparr>bundle_get_icon = ''paint.svg'',
        bundle_get_service_name = ''org.laptop.Paint''\<rparr> ''a1'' 0 (idle_loop 0 0))
        [SetService (Some \<lparr>service_get_shared = True\<rparr>), Get GetService,
         SetService (Some \<lparr>service_get_shared = False\<rparr>)])) = Return ''a1'' \<and>
   get_service (self (run (HomeActivity_init \<lparr>bundle_get_icon = ''paint.svg'',
        bundle_get_service_name = ''org.laptop.Paint''\<rparr> ''a1'' 0 (idle_loop 0 0))
        [SetService (Some \<lparr>service_get_shared = True\<rparr>), Get GetService,
         SetService (Some \<lparr>service_get_shared = False\<rparr>)])) =
     Return (Some \<lparr>service_get_shared = False\<rparr>) \<and>
   get_service (self (run (HomeActivity_init \<lparr>bundle_get_icon = ''paint.svg'',
        bundle_get_service_name = ''org.laptop.Paint''\<rparr> ''a1'' 0 (idle_loop 0 0))
        [Advance 3])) = Return None"
  by (simp add: ungated_methods latest_service_def)


section \<open>A rejected window\<close>

lemma set_window_rejected:
  assumes "\<not> truthy_window x" and "self_window (self w) = None" and "self_xid (self w) = None"
  shows "fst (set_window x w) = Raise (ValueError ''window must be valid'') \<and>
         self_launched (self (snd (set_window x w))) \<and>
         self_launch_timeout_id (self (snd (set_window x w))) = 0 \<and>
         self_window (self (snd (set_window x w))) = None \<and>
         self_xid (self (snd (set_window x w))) = None"
  using assms
  by (auto simp: set_window_def Let_def truthy_window_def truthy_xid_def split: option.splits)

text \<open>
  C7 says that a call of \<open>set_window\<close> with an invalid window raises \<open>ValueError\<close>.
  On an activity whose window is bound it does not: the check of \<open>_window\<close> and
  \<open>_xid\<close> comes first and raises \<open>RuntimeError("Activity is already launched!")\<close>
  (shown at the end of this section). What holds is C7 for an activity with no window
  bound: there a call of \<open>set_window\<close> with an invalid window
  (\<open>None\<close>, or an object that counts as false) raises
  \<open>ValueError("window must be valid")\<close>, and is not atomic: after it
  \<open>get_launched\<close> returns \<open>True\<close>, the handle is 0 and the loop holds no source, no
  window and no xid are bound, and whatever happens next no signal is emitted any more.
\<close>

theorem set_window_invalid_not_atomic:
  assumes "\<not> truthy_window x"
    and "self_window (self (run (HomeActivity_init b a t (idle_loop n c)) evs)) = None"
  shows "fst (set_window x (run (HomeActivity_init b a t (idle_loop n c)) evs)) =
           Raise (ValueError ''window must be valid'') \<and>
         get_launched (self (snd (set_window x
           (run (HomeActivity_init b a t (idle_loop n c)) evs)))) = Return True \<and>
         self_launch_timeout_id (self (snd (set_window x
           (run (HomeActivity_init b a t (idle_loop n c)) evs)))) = 0 \<and>
         sources (loop (snd (set_window x
           (run (HomeActivity_init b a t (idle_loop n c)) evs)))) = [] \<and>
         self_window (self (snd (set_window x
           (run (HomeActivity_init b a t (idle_loop n c)) evs)))) = None \<and>
         self_xid (self (snd (set_window x
           (run (HomeActivity_init b a t (idle_loop n c)) evs)))) = None \<and>
         emitted (run (snd (set_window x
           (run (HomeActivity_init b a t (idle_loop n c)) evs))) evs') =
           emitted (run (HomeActivity_init b a t (idle_loop n c)) evs)"
proof -
  let ?w = "run (HomeActivity_init b a t (idle_loop n c)) evs"
  let ?w' = "snd (set_window x ?w)"
  have inv: "launch_inv c ?w" by (rule inv_reachable)
  with assms(2) have "self_xid (self ?w) = None" by (simp add: launch_inv_def)
  from set_window_rejected [OF assms(1) assms(2) this]
  have rejected: "fst (set_window x ?w) = Raise (ValueError ''window must be valid'')"
    and flagged: "self_launched (self ?w')"
    and handle: "self_launch_timeout_id (self ?w') = 0"
    and unbound: "self_window (self ?w') = None" "self_xid (self ?w') = None"
    by simp_all
  from set_window_quiet [OF inv, of x]
  have empty: "sources (loop ?w') = []" and same: "emitted ?w' = emitted ?w" by simp_all
  from quiet_run [OF empty, of evs'] same
  have "emitted (run ?w' evs') = emitted ?w" by simp
  with rejected flagged handle unbound empty show ?thesis
    by (simp add: get_launched_def)
qed

theorem set_window_invalid_not_atomic_witness:
  "\<not> truthy_window None \<and>
   self_window (self (run (HomeActivity_init \<lparr>bundle_get_icon = ''paint.svg'',
      bundle_get_service_name = ''org.laptop.Paint''\<rparr> ''a1'' 0 (idle_loop 0 0))
      [Advance 100])) = None \<and>
   fst (set_window None (run (HomeActivity_init \<lparr>bundle_get_icon = ''paint.svg'',
      bundle_get_service_name = ''org.laptop.Paint''\<rparr> ''a1'' 0 (idle_loop 0 0))
      [Advance 100])) = Raise (ValueError ''window must be valid'') \<and>
   get_launched (self (snd (set_window None (run (HomeActivity_init
      \<lparr>bundle_get_icon = ''paint.svg'', bundle_get_service_name = ''org.laptop.Paint''\<rparr>
      ''a1'' 0 (idle_loop 0 0)) [Advance 100])))) = Return True \<and>
   emitted (run (snd (set_window None (run (HomeActivity_init
      \<lparr>bundle_get_icon = ''paint.svg'', bundle_get_service_name = ''org.laptop.Paint''\<rparr>
      ''a1'' 0 (idle_loop 0 0)) [Advance 100]))) [Advance 20000, Dispatch 1]) = []"
proof -
  let ?w = "run (HomeActivity_init \<lparr>bundle_get_icon = ''paint.svg'',
      bundle_get_service_name = ''org.laptop.Paint''\<rparr> ''a1'' 0 (idle_loop 0 0)) [Advance 100]"
  have h1: "\<not> truthy_window None" by (simp add: truthy_window_def)
  have h2: "self_window (self ?w) = None"
    by (simp add: run_def advance_def HomeActivity_init_def timeout_add_def Let_def)
  have h3: "emitted ?w = []"
    by (simp add: run_def advance_def HomeActivity_init_def timeout_add_def Let_def)
  from h1 h2 h3 set_window_invalid_not_atomic [OF h1 h2, of "[Advance 20000, Dispatch 1]"]
  show ?thesis by simp
qed

text \<open>
  The same call on an activity that has its window: the first \<open>set_window\<close> returns,
  the second, with \<open>None\<close>, raises the \<open>RuntimeError\<close> and not the \<open>ValueError\<close>,
  and the window stays bound.
\<close>

theorem set_window_invalid_on_bound_counterexample:
  "fst (set_window (Some \<lparr>window_nonzero = True, window_get_xid = 77, window_get_name = ''Paint''\<rparr>)
     (HomeActivity_init \<lparr>bundle_get_icon = ''paint.svg'',
        bundle_get_service_name = ''org.laptop.Paint''\<rparr> ''a1'' 0 (idle_loop 0 0))) = Return () \<and>
   fst (set_window None (snd (set_window (Some \<lparr>window_nonzero = True, window_get_xid = 77, window_get_name = ''Paint''\<rparr>)
     (HomeActivity_init \<lparr>bundle_get_icon = ''paint.svg'',
        bundle_get_service_name = ''org.laptop.Paint''\<rparr> ''a1'' 0 (idle_loop 0 0))))) = Raise (RuntimeError ''Activity is already launched!'') \<and>
   fst (set_window None (snd (set_window (Some \<lparr>window_nonzero = True, window_get_xid = 77, window_get_name = ''Paint''\<rparr>)
     (HomeActivity_init \<lparr>bundle_get_icon = ''paint.svg'',
        bundle_get_service_name = ''org.laptop.Paint''\<rparr> ''a1'' 0 (idle_loop 0 0))))) \<noteq> Raise (ValueError ''window must be valid'') \<and>
   self_window (self (snd (set_window None (snd (set_window (Some \<lparr>window_nonzero = True, window_get_xid = 77, window_get_name = ''Paint''\<rparr>)
     (HomeActivity_init \<lparr>bundle_get_icon = ''paint.svg'',
        bundle_get_service_name = ''org.laptop.Paint''\<rparr> ''a1'' 0 (idle_loop 0 0))))))) = (Some \<lparr>window_nonzero = True, window_get_xid = 77, window_get_name = ''Paint''\<rparr>)"
  by (simp add: set_window_def HomeActivity_init_def timeout_add_def idle_loop_def
      source_remove_def truthy_window_def truthy_xid_def Let_def)

section \<open>The getters with a precondition\<close>

lemma gated_getters:
  assumes "\<not> self_launched s"
  shows "get_window s = Raise (RuntimeError ''Activity is still launching.'') \<and>
         get_title s = Raise (RuntimeError ''Activity is still launching.'') \<and>
         get_xid s = Raise (RuntimeError ''Activity is still launching.'') \<and>
         get_shared s = Raise (RuntimeError ''Activity is still launching.'')"
  using assms by (simp add: get_window_def get_title_def get_xid_def get_shared_def)

lemma unlaunched_step:
  assumes "\<not> self_launched (self w)" and "\<And>x. e \<noteq> SetWindow x"
  shows "\<not> self_launched (self (step w e))"
  using assms launched_changes_step [of w e] by blast

lemma unlaunched_run:
  "\<not> self_launched (self w) \<Longrightarrow> (\<And>x. SetWindow x \<notin> set evs) \<Longrightarrow>
   \<not> self_launched (self (run w evs))"
proof (induction evs arbitrary: w)
  case Nil
  then show ?case by (simp add: run_Nil)
next
  case (Cons e evs)
  from Cons.prems(2) have "\<And>x. e \<noteq> SetWindow x" by auto
  from unlaunched_step [OF Cons.prems(1) this]
  have "\<not> self_launched (self (step w e))" .
  moreover from Cons.prems(2) have "\<And>x. SetWindow x \<notin> set evs" by auto
  ultimately show ?case using Cons.IH [of "step w e"] by (simp add: run_Cons)
qed

text \<open>
  C2 asks that the four getters raise \<open>RuntimeError("Activity is still launching.")\<close>
  on every activity on which no \<open>set_window\<close> has returned normally. They do while
  \<open>set_window\<close> has not been called (\<open>gated_getters\<close>, \<open>unlaunched_run\<close>). After a
  call that raised \<open>ValueError\<close> they do not: \<open>get_window\<close> and \<open>get_xid\<close> return
  \<open>None\<close>, and \<open>get_title\<close> and \<open>get_shared\<close> fail on \<open>None\<close> with another error.
\<close>

theorem getters_after_rejected_window:
  "fst (set_window None (HomeActivity_init b a t (idle_loop n c))) =
     Raise (ValueError ''window must be valid'') \<and>
   self_window (self (snd (set_window None (HomeActivity_init b a t (idle_loop n c))))) = None \<and>
   get_launched (self (snd (set_window None (HomeActivity_init b a t (idle_loop n c))))) =
     Return True \<and>
   get_window (self (snd (set_window None (HomeActivity_init b a t (idle_loop n c))))) =
     Return None \<and>
   get_xid (self (snd (set_window None (HomeActivity_init b a t (idle_loop n c))))) =
     Return None \<and>
   get_title (self (snd (set_window None (HomeActivity_init b a t (idle_loop n c))))) =
     Raise (AttributeError ''get_name'') \<and>
   get_shared (self (snd (set_window None (HomeActivity_init b a t (idle_loop n c))))) =
     Raise (AttributeError ''get_shared'')"
  by (simp add: set_window_def HomeActivity_init_def timeout_add_def idle_loop_def
      source_remove_def truthy_window_def truthy_xid_def Let_def get_launched_def
      get_window_def get_xid_def get_title_def get_shared_def)


section \<open>The launch timer\<close>

lemma armed_init: "armed (HomeActivity_init b a t (idle_loop n c))"
  by (simp add: armed_def HomeActivity_init_def timeout_add_def idle_loop_def)

lemma init_source:
  "sources (loop (HomeActivity_init b a t (idle_loop n c))) =
     [(self_launch_timeout_id (self (HomeActivity_init b a t (idle_loop n c))),
       \<lparr>interval = 20000, deadline = c + 20000\<rparr>)]"
  by (simp add: HomeActivity_init_def timeout_add_def idle_loop_def)

lemma disarmed_by_set_window:
  "self_launch_timeout_id (self (snd (set_window x w))) = 0 \<and> \<not> armed (snd (set_window x w))"
  by (simp add: armed_def set_window_def Let_def split: option.splits)

lemma disarmed_by_timeout:
  assumes "launch_inv c w" and "armed w" and "c + 20000 \<le> clock (loop w)"
  shows "self_launch_timeout_id (self (dispatch (self_launch_timeout_id (self w)) w)) = 0 \<and>
         sources (loop (dispatch (self_launch_timeout_id (self w)) w)) = [] \<and>
         emitted (dispatch (self_launch_timeout_id (self w)) w) = [''launch-timeout'']"
  using assms
  by (auto simp: launch_inv_def armed_def dispatch_def launch_timeout_cb_def source_remove_def)

lemma disarmed_only_by:
  assumes "armed w" and "\<not> armed (step w e)"
  shows "(\<exists>x. e = SetWindow x) \<or> (\<exists>i. e = Dispatch i)"
  using assms
  by (cases e)
    (auto simp: armed_def set_service_def advance_def HomeActivity_del_def Let_def
      split: if_splits)

lemma emitting_step:
  assumes "launch_inv c w" and "emitted (step w e) \<noteq> emitted w"
  shows "(\<exists>i. e = Dispatch i) \<and> \<not> self_launched (self w) \<and> self_window (self w) = None \<and>
         emitted w = [] \<and> c + 20000 \<le> clock (loop w)"
proof (cases e)
  case (Dispatch i)
  with assms show ?thesis
    by (auto simp: launch_inv_def dispatch_def launch_timeout_cb_def source_remove_def
        split: option.splits if_splits)
next
  case (SetWindow x)
  with assms(2) show ?thesis
    by (simp add: set_window_def Let_def split: option.splits if_splits)
qed (use assms(2) in \<open>simp_all add: set_service_def advance_def HomeActivity_del_def Let_def
      split: if_splits\<close>)

text \<open>
  C3 asks that the armed timer is disarmed when its timeout fires or a window is bound
  and by nothing else. It is disarmed by both (\<open>disarmed_by_timeout\<close>,
  \<open>disarmed_by_set_window\<close>), and only \<open>set_window\<close> and a dispatch disarm it
  (\<open>disarmed_only_by\<close>); but \<open>set_window\<close> disarms it before it checks its argument:
  on a new activity the call with \<open>None\<close> raises \<open>ValueError\<close>, binds nothing, emits
  nothing, and leaves the handle at 0 and the loop without the source.
\<close>

theorem timer_disarmed_by_rejected_window:
  "armed (HomeActivity_init b a t (idle_loop n c)) \<and>
   fst (set_window None (HomeActivity_init b a t (idle_loop n c))) =
     Raise (ValueError ''window must be valid'') \<and>
   \<not> armed (snd (set_window None (HomeActivity_init b a t (idle_loop n c)))) \<and>
   self_launch_timeout_id
     (self (snd (set_window None (HomeActivity_init b a t (idle_loop n c))))) = 0 \<and>
   sources (loop (snd (set_window None (HomeActivity_init b a t (idle_loop n c))))) = [] \<and>
   self_window (self (snd (set_window None (HomeActivity_init b a t (idle_loop n c))))) = None \<and>
   emitted (snd (set_window None (HomeActivity_init b a t (idle_loop n c)))) = []"
  by (simp add: armed_def set_window_def HomeActivity_init_def timeout_add_def idle_loop_def
      source_remove_def truthy_window_def truthy_xid_def Let_def)

text \<open>
  C4. The timer is added with 20000 ms and its callback returns \<open>False\<close>. In every
  world a construction at loop time \<open>c\<close> leads to, \<open>launch-timeout\<close> has been emitted
  at most once; when it has, the loop's clock has reached \<open>c + 20000\<close> and the loop
  holds no source any more; the event that emits it is a dispatch, in a world where
  nothing is launched and no window is bound; and after a \<open>set_window\<close> that returns
  normally before \<open>c + 20000\<close>, nothing is emitted whatever happens next.
\<close>

theorem launch_timeout_at_most_once:
  "sources (loop (HomeActivity_init b a t (idle_loop n c))) =
     [(self_launch_timeout_id (self (HomeActivity_init b a t (idle_loop n c))),
       \<lparr>interval = 20000, deadline = c + 20000\<rparr>)] \<and>
   fst (launch_timeout_cb (run (HomeActivity_init b a t (idle_loop n c)) evs)) = False \<and>
   (emitted (run (HomeActivity_init b a t (idle_loop n c)) evs) = [] \<or>
    emitted (run (HomeActivity_init b a t (idle_loop n c)) evs) = [''launch-timeout'']) \<and>
   (emitted (run (HomeActivity_init b a t (idle_loop n c)) evs) \<noteq> [] \<longrightarrow>
      c + 20000 \<le> clock (loop (run (HomeActivity_init b a t (idle_loop n c)) evs)) \<and>
      sources (loop (run (HomeActivity_init b a t (idle_loop n c)) evs)) = []) \<and>
   (emitted (step (run (HomeActivity_init b a t (idle_loop n c)) evs) e) \<noteq>
      emitted (run (HomeActivity_init b a t (idle_loop n c)) evs) \<longrightarrow>
      (\<exists>i. e = Dispatch i) \<and>
      \<not> self_launched (self (run (HomeActivity_init b a t (idle_loop n c)) evs)) \<and>
      self_window (self (run (HomeActivity_init b a t (idle_loop n c)) evs)) = None) \<and>
   (fst (set_window x (run (HomeActivity_init b a t (idle_loop n c)) evs)) = Return () \<and>
    clock (loop (run (HomeActivity_init b a t (idle_loop n c)) evs)) < c + 20000 \<longrightarrow>
      emitted (run (snd (set_window x (run (HomeActivity_init b a t (idle_loop n c)) evs)))
        evs') = [])"
proof -
  let ?w = "run (HomeActivity_init b a t (idle_loop n c)) evs"
  have inv: "launch_inv c ?w" by (rule inv_reachable)
  have once: "emitted ?w = [] \<or> emitted ?w = [''launch-timeout'']"
    using inv by (auto simp: launch_inv_def)
  have late: "emitted ?w \<noteq> [] \<longrightarrow> c + 20000 \<le> clock (loop ?w) \<and> sources (loop ?w) = []"
    using inv by (auto simp: launch_inv_def)
  have fire: "emitted (step ?w e) \<noteq> emitted ?w \<longrightarrow>
      (\<exists>i. e = Dispatch i) \<and> \<not> self_launched (self ?w) \<and> self_window (self ?w) = None"
    using emitting_step [OF inv, of e] by blast
  have bound: "fst (set_window x ?w) = Return () \<and> clock (loop ?w) < c + 20000 \<longrightarrow>
      emitted (run (snd (set_window x ?w)) evs') = []"
  proof
    assume h: "fst (set_window x ?w) = Return () \<and> clock (loop ?w) < c + 20000"
    with late have none: "emitted ?w = []" by auto
    from set_window_quiet [OF inv, of x]
    have empty: "sources (loop (snd (set_window x ?w))) = []"
      and same: "emitted (snd (set_window x ?w)) = emitted ?w" by simp_all
    from quiet_run [OF empty, of evs'] same none
    show "emitted (run (snd (set_window x ?w)) evs') = []" by simp
  qed
  have cb: "fst (launch_timeout_cb ?w) = False" by (simp add: launch_timeout_cb_def)
  from init_source [of b a t n c] cb once late fire bound show ?thesis by blast
qed


theorem launch_timeout_at_most_once_witness:
  "emitted (run (HomeActivity_init \<lparr>bundle_get_icon = ''paint.svg'',
        bundle_get_service_name = ''org.laptop.Paint''\<rparr> ''a1'' 0 (idle_loop 0 0)) [Advance 20000, Dispatch 1, Advance 20000, Dispatch 1]) =
     [''launch-timeout''] \<and>
   sources (loop (run (HomeActivity_init \<lparr>bundle_get_icon = ''paint.svg'',
        bundle_get_service_name = ''org.laptop.Paint''\<rparr> ''a1'' 0 (idle_loop 0 0)) [Advance 20000, Dispatch 1, Advance 20000, Dispatch 1])) = [] \<and>
   emitted (run (HomeActivity_init \<lparr>bundle_get_icon = ''paint.svg'',
        bundle_get_service_name = ''org.laptop.Paint''\<rparr> ''a1'' 0 (idle_loop 0 0)) [Advance 20000]) = [] \<and>
   emitted (step (run (HomeActivity_init \<lparr>bundle_get_icon = ''paint.svg'',
        bundle_get_service_name = ''org.laptop.Paint''\<rparr> ''a1'' 0 (idle_loop 0 0)) [Advance 20000]) (Dispatch 1)) = [''launch-timeout''] \<and>
   \<not> self_launched (self (run (HomeActivity_init \<lparr>bundle_get_icon = ''paint.svg'',
        bundle_get_service_name = ''org.laptop.Paint''\<rparr> ''a1'' 0 (idle_loop 0 0)) [Advance 20000])) \<and>
   fst (set_window (Some \<lparr>window_nonzero = True, window_get_xid = 77, window_get_name = ''Paint''\<rparr>) (run (HomeActivity_init \<lparr>bundle_get_icon = ''paint.svg'',
        bundle_get_service_name = ''org.laptop.Paint''\<rparr> ''a1'' 0 (idle_loop 0 0)) [Advance 19999])) = Return () \<and>
   clock (loop (run (HomeActivity_init \<lparr>bundle_get_icon = ''paint.svg'',
        bundle_get_service_name = ''org.laptop.Paint''\<rparr> ''a1'' 0 (idle_loop 0 0)) [Advance 19999])) < 0 + 20000 \<and>
   emitted (run (snd (set_window (Some \<lparr>window_nonzero = True, window_get_xid = 77, window_get_name = ''Paint''\<rparr>) (run (HomeActivity_init \<lparr>bundle_get_icon = ''paint.svg'',
        bundle_get_service_name = ''org.laptop.Paint''\<rparr> ''a1'' 0 (idle_loop 0 0)) [Advance 19999]))) [Advance 1, Dispatch 1]) = []"
proof -
  let ?w0 = "(HomeActivity_init \<lparr>bundle_get_icon = ''paint.svg'',
        bundle_get_service_name = ''org.laptop.Paint''\<rparr> ''a1'' 0 (idle_loop 0 0))"
  let ?x = "(Some \<lparr>window_nonzero = True, window_get_xid = 77, window_get_name = ''Paint''\<rparr>)"
  have fired: "emitted (run ?w0 [Advance 20000, Dispatch 1, Advance 20000, Dispatch 1]) =
      [''launch-timeout'']"
    by (simp add: run_def advance_def dispatch_def launch_timeout_cb_def source_remove_def
        HomeActivity_init_def timeout_add_def idle_loop_def)
  have before: "emitted (run ?w0 [Advance 20000]) = []"
    by (simp add: run_def advance_def HomeActivity_init_def timeout_add_def idle_loop_def)
  have firing: "emitted (step (run ?w0 [Advance 20000]) (Dispatch 1)) = [''launch-timeout'']"
    by (simp add: run_def advance_def dispatch_def launch_timeout_cb_def source_remove_def
        HomeActivity_init_def timeout_add_def idle_loop_def)
  have early: "clock (loop (run ?w0 [Advance 19999])) < 0 + 20000"
    by (simp add: run_def advance_def HomeActivity_init_def timeout_add_def idle_loop_def)
  have bound: "fst (set_window ?x (run ?w0 [Advance 19999])) = Return ()"
    by (simp add: run_def advance_def set_window_def truthy_window_def truthy_xid_def
        HomeActivity_init_def timeout_add_def idle_loop_def Let_def)
  from fired before firing early bound
    launch_timeout_at_most_once [of _ _ _ 0 0
      "[Advance 20000, Dispatch 1, Advance 20000, Dispatch 1]"]
    launch_timeout_at_most_once [of _ _ _ 0 0 "[Advance 20000]" "Dispatch 1"]
    launch_timeout_at_most_once [of _ _ _ 0 0 "[Advance 19999]" _ ?x "[Advance 1, Dispatch 1]"]
  show ?thesis by simp
qed

end
